theory Spec2Isabelle
  imports Main "HOL-Library.Sublist" "HOL-Library.AList"
begin

section \<open>Python values used by the restore widget\<close>

text \<open>
  The development embeds \<^verbatim>\<open>snapshot/gui/restore.py\<close>. Python dictionaries are association
  lists in insertion order (\<open>d[k] = v\<close> is \<open>AList.update\<close>, \<open>d.pop(k, None)\<close> is
  \<open>AList.delete\<close>, \<open>d.get(k)\<close> is \<open>map_of\<close>); an exception is a value of \<open>py_error\<close>.
\<close>

datatype py_error = TypeError | ValueError | KeyError | IndexError | OSError

text \<open>Python's \<^verbatim>\<open>a in b\<close> on two \<^verbatim>\<open>str\<close>: \<open>a\<close> occurs in \<open>b\<close> as a contiguous run.\<close>

fun py_in :: "string \<Rightarrow> string \<Rightarrow> bool" where
  "py_in a [] = (a = [])"
| "py_in a (c # cs) = (prefix a (c # cs) \<or> py_in a cs)"

text \<open>\<^verbatim>\<open>" ".join(labels)\<close>\<close>

fun join_sp :: "string list \<Rightarrow> string" where
  "join_sp [] = []"
| "join_sp [l] = l"
| "join_sp (l # ls) = l @ '' '' @ join_sp ls"

section \<open>restore_done: aggregating the per-PV restore statuses\<close>

text \<open>
  Modelled from the spec: the enumeration \<^verbatim>\<open>PvStatus\<close> lives in \<^verbatim>\<open>ca_core\<close>, which is not
  among the sources; the spec lists the item statuses ok, access error, type error and
  disconnected. \<^verbatim>\<open>restore_done\<close> compares against \<^verbatim>\<open>access_err\<close> and \<^verbatim>\<open>type_err\<close> only.
\<close>

datatype PvStatus = ok | access_err | type_err | disconnected

text \<open>
  The local variables of \<^verbatim>\<open>restore_done\<close> and what it hands to the status widgets:
  \<open>sts_log\<close> collects the lines given to \<^verbatim>\<open>sts_log.log_msgs\<close>, \<open>sts_info\<close> the arguments of
  \<^verbatim>\<open>sts_info.set_status\<close> (text and background) when it is called.
\<close>

record restore_gui =
  error :: bool
  msgs :: "string list"
  status_txt :: string
  status_background :: string
  sts_log :: "string list"
  sts_info :: "(string \<times> string) option"

definition restore_done_item :: "bool \<Rightarrow> string \<times> PvStatus \<Rightarrow> restore_gui \<Rightarrow> restore_gui" where
  "restore_done_item forced item g =
     (case item of (pvname, sts) \<Rightarrow>
        if sts = access_err then
          g\<lparr>error := \<not> forced,
            msgs := msgs g @ [''WARNING: '' @ pvname @ '': Not restored (no connection or no read access).''],
            status_txt := ''Restore error'',
            status_background := ''#F06464''\<rparr>
        else if sts = type_err then
          g\<lparr>error := True,
            msgs := msgs g @ [''WARNING: '' @ pvname @ '': Not restored (type problem).''],
            status_txt := ''Restore error'',
            status_background := ''#F06464''\<rparr>
        else g)"

definition restore_done :: "(string \<times> PvStatus) list \<Rightarrow> bool \<Rightarrow> restore_gui" where
  "restore_done status forced =
     (let g0 = \<lparr>error = False, msgs = [], status_txt = [], status_background = [],
                 sts_log = [], sts_info = None\<rparr>;
          g1 = fold (restore_done_item forced) status g0;
          g2 = g1\<lparr>sts_log := msgs g1\<rparr>;
          g3 = (if \<not> error g2
                then g2\<lparr>sts_log := sts_log g2 @ [''Restore finished.''],
                        status_txt := ''Restore done'',
                        status_background := ''#64C864''\<rparr>
                else g2)
      in if status_txt g3 \<noteq> [] then g3\<lparr>sts_info := Some (status_txt g3, status_background g3)\<rparr>
         else g3)"

section \<open>gen_index_file: the index of the save directory\<close>

text \<open>
  The text stream \<^verbatim>\<open>outStream\<close>, opened for writing: its contents and its position.
  \<^verbatim>\<open>write\<close> overwrites from the position on and extends the file; \<^verbatim>\<open>seek\<close> to a negative
  offset raises \<^verbatim>\<open>ValueError\<close>.
\<close>

record out_stream =
  buf :: string
  pos :: nat

definition stream_write :: "string \<Rightarrow> out_stream \<Rightarrow> out_stream" where
  "stream_write s f =
     \<lparr>buf = take (pos f) (buf f) @ replicate (pos f - length (buf f)) (CHR 0x00) @ s
              @ drop (pos f + length s) (buf f),
      pos = pos f + length s\<rparr>"

definition stream_tell :: "out_stream \<Rightarrow> int" where
  "stream_tell f = int (pos f)"

definition stream_seek :: "int \<Rightarrow> out_stream \<Rightarrow> py_error + out_stream" where
  "stream_seek n f = (if n < 0 then Inl ValueError else Inr (f\<lparr>pos := nat n\<rparr>))"

text \<open>One line of the index: the file's base name and its first line without the first
  and the last character (\<^verbatim>\<open>ln[1:-1]\<close>).\<close>

definition index_line :: "string \<times> string \<Rightarrow> string" where
  "index_line e =
     (case e of (base_name, ln) \<Rightarrow>
        [CHR ''['', CHR 0x22] @ base_name @ [CHR 0x22, CHR '',''] @ butlast (tl ln)
          @ [CHR '']'', CHR '','', CHR 0x0A])"

text \<open>
  \<open>gen_index_file files\<close>: \<open>files\<close> is what the glob over the save directory yields, each
  file with its base name and its first line. The result is the text of the index file, or
  the exception raised.
\<close>

definition gen_index_file :: "(string \<times> string) list \<Rightarrow> py_error + string" where
  "gen_index_file files =
     (let outStream = stream_write [CHR ''['', CHR 0x0A] \<lparr>buf = [], pos = 0\<rparr>;
          outStream = fold (\<lambda>e f. stream_write (index_line e) f) files outStream
      in case stream_seek (stream_tell outStream - 3) outStream of
           Inl e \<Rightarrow> Inl e
         | Inr outStream \<Rightarrow>
             Inr (buf (stream_write [CHR '']'', CHR 0x0A, CHR '']'', CHR 0x0A] outStream)))"

section \<open>The file selector: its table, its rows and the shared label list\<close>

text \<open>
  The header of a save file as the widget reads it: a dictionary of which the code looks at
  the keys \<^verbatim>\<open>req_file_name\<close>, \<^verbatim>\<open>comment\<close> and \<^verbatim>\<open>labels\<close>; \<open>None\<close> is a missing key.
\<close>

record meta_data =
  req_file_name :: "string option"
  comment :: "string option"
  labels :: "string list option"

text \<open>\<^verbatim>\<open>meta.get("labels", list())\<close> and \<^verbatim>\<open>meta.get("comment", "")\<close>\<close>

definition get_labels :: "meta_data \<Rightarrow> string list" where
  "get_labels meta = (case labels meta of None \<Rightarrow> [] | Some l \<Rightarrow> l)"

definition get_comment :: "meta_data \<Rightarrow> string" where
  "get_comment meta = (case comment meta of None \<Rightarrow> [] | Some c \<Rightarrow> c)"

text \<open>
  An entry of \<^verbatim>\<open>file_list\<close>: the keys \<^verbatim>\<open>pvs_list\<close>, \<^verbatim>\<open>meta_data\<close>, \<^verbatim>\<open>modif_time\<close> written by
  \<^verbatim>\<open>get_save_files\<close>, and \<^verbatim>\<open>file_selector\<close>, the row of the tree widget, attached when the
  entry enters the table (the row's identity).
\<close>

record 'v file_data =
  pvs_list :: "(string \<times> 'v) list"
  meta_data :: meta_data
  modif_time :: int
  file_selector :: "nat option"

text \<open>
  A top-level row of the tree widget: its identity, the four columns (the time column holds
  the time stamp that the code formats), the data set with \<^verbatim>\<open>setData(0, 0x100, meta)\<close> and the
  hidden flag.
\<close>

record selector_item =
  item_id :: nat
  time_col :: int
  file_col :: string
  comment_col :: string
  labels_col :: string
  item_data :: "meta_data option"
  hidden :: bool

text \<open>
  The state of \<^verbatim>\<open>SnapshotRestoreFileSelector\<close>: \<open>file_list\<close> (the table), \<open>tree\<close> (the rows
  of the tree widget, in insertion order), \<open>existing_labels\<close> (the list object held in
  \<^verbatim>\<open>common_settings["existing_labels"]\<close>, shared with the other widgets),
  \<open>selected_files\<close> and the next free row identity.
\<close>

record 'v selector =
  file_list :: "(string \<times> 'v file_data) list"
  tree :: "selector_item list"
  existing_labels :: "string list"
  selected_files :: "string list"
  next_id :: nat

section \<open>filter_file_list_selector\<close>

text \<open>\<^verbatim>\<open>SnapshotFileFilterWidget.file_filter\<close>, with the names the filter function gives
  its three entries.\<close>

record file_filter =
  keys_filter :: "string list"
  comment_filter :: string
  name_filter :: string

text \<open>
  The body of the loop over the rows: the value passed to \<^verbatim>\<open>setHidden\<close>, or the exception.
  A row without data gets the empty dictionary, whose \<^verbatim>\<open>get\<close> yields \<^verbatim>\<open>None\<close>: then
  \<^verbatim>\<open>name_filter in None\<close> and \<^verbatim>\<open>issubset(None)\<close> raise \<^verbatim>\<open>TypeError\<close>.
\<close>

definition item_hidden :: "file_filter \<Rightarrow> selector_item \<Rightarrow> py_error + bool" where
  "item_hidden ff item =
     (let fn = file_col item;
          meta = (case item_data item of
                    None \<Rightarrow> \<lparr>req_file_name = None, comment = None, labels = None\<rparr>
                  | Some m \<Rightarrow> m);
          labels_branch =
            (if keys_filter ff \<noteq> [] then
               (case labels meta of
                  None \<Rightarrow> Inl TypeError
                | Some ls \<Rightarrow> Inr (\<not> set (keys_filter ff) \<subseteq> set ls))
             else Inr False)
      in if name_filter ff \<noteq> [] \<and> \<not> py_in (name_filter ff) fn then Inr True
         else if comment_filter ff \<noteq> [] then
           (case comment meta of
              None \<Rightarrow> Inl TypeError
            | Some c \<Rightarrow> if \<not> py_in (name_filter ff) c then Inr True else labels_branch)
         else labels_branch)"

text \<open>
  The loop over the rows of the tree widget. The result is the exception raised, if any,
  and the rows after the run: when the body raises at a row, the rows before it have their
  new hidden flag, and that row and the rows after it keep the flag they had.
\<close>

fun filter_file_list_selector ::
  "file_filter \<Rightarrow> selector_item list \<Rightarrow> py_error option \<times> selector_item list" where
  "filter_file_list_selector ff [] = (None, [])"
| "filter_file_list_selector ff (item # items) =
     (case item_hidden ff item of
        Inl e \<Rightarrow> (Some e, item # items)
      | Inr h \<Rightarrow>
          (case filter_file_list_selector ff items of
             (r, items') \<Rightarrow> (r, item\<lparr>hidden := h\<rparr> # items')))"

section \<open>do_restore: the items handed to the restore call\<close>

text \<open>
  What \<^verbatim>\<open>do_restore\<close> does up to the call of \<^verbatim>\<open>snapshot.restore_pvs\<close>: a warning when not
  exactly one file is selected or the selected file has no entry, else the call with
  \<^verbatim>\<open>pvs_to_restore\<close>. \<^verbatim>\<open>SnapshotPv.macros_substitution\<close> and the macros belong to \<^verbatim>\<open>ca_core\<close>
  and are parameters.
\<close>

datatype 'v restore_start = Not_selected | Read_problem | Restore_pvs "(string \<times> 'v) list"

definition do_restore ::
  "(string \<Rightarrow> 'm \<Rightarrow> string) \<Rightarrow> 'm \<Rightarrow> 'v selector \<Rightarrow> string list option \<Rightarrow> 'v restore_start" where
  "do_restore macros_substitution macros s pvs_arg =
     (if length (selected_files s) = 1 then
        (case map_of (file_list s) (hd (selected_files s)) of
           None \<Rightarrow> Read_problem
         | Some file_data \<Rightarrow>
             (let pvs_in_file = pvs_list file_data;
                  pvs_to_restore = pvs_in_file
              in case pvs_arg of
                   None \<Rightarrow> Restore_pvs pvs_to_restore
                 | Some pl \<Rightarrow>
                     Restore_pvs
                       (fold (\<lambda>pvname r.
                                if macros_substitution pvname macros \<notin> set pl
                                then AList.delete pvname r else r)
                          (map fst pvs_in_file) pvs_to_restore)))
      else Not_selected)"

section \<open>get_save_files: scanning the save directory\<close>

text \<open>
  One path yielded by the glob over the save directory, with what the operating system and
  \<^verbatim>\<open>snapshot.parse_from_save_file\<close> (of \<^verbatim>\<open>ca_core\<close>) answer for it: the base name, whether it
  is a regular file, its modification time, and the parsed items, header and error list.
  The directory is the list of these paths in the order of the glob.
\<close>

record 'v save_file =
  file_name :: string
  isfile :: bool
  getmtime :: int
  parsed_pvs :: "(string \<times> 'v) list"
  parsed_meta :: meta_data
  parsed_err :: "string list"

text \<open>\<^verbatim>\<open>req_file_name.split(".")[0]\<close>\<close>

definition split_dot_0 :: "string \<Rightarrow> string" where
  "split_dot_0 name = takeWhile (\<lambda>c. c \<noteq> CHR ''.'') name"

text \<open>The test of lines 434-435: the file is not in the table, or is there with another
  modification time.\<close>

definition new_or_modified :: "(string \<times> 'v file_data) list \<Rightarrow> 'v save_file \<Rightarrow> bool" where
  "new_or_modified current_files f =
     (case map_of current_files (file_name f) of
        None \<Rightarrow> True
      | Some d \<Rightarrow> modif_time d \<noteq> getmtime f)"

text \<open>The test of lines 445-446: the header names the current request file, or the file
  name starts with the request file's name up to its first dot, followed by an underscore.\<close>

definition belongs_to_req_file :: "string \<Rightarrow> 'v save_file \<Rightarrow> bool" where
  "belongs_to_req_file req f =
     (req_file_name (parsed_meta f) = Some req
      \<or> prefix (split_dot_0 req @ ''_'') (file_name f))"

text \<open>Lines 449-458: the entry stored for an accepted file, with a missing comment and
  missing labels filled in.\<close>

definition save_file_entry :: "'v save_file \<Rightarrow> 'v file_data" where
  "save_file_entry f =
     (let meta = parsed_meta f;
          meta = (if comment meta = None then meta\<lparr>comment := Some []\<rparr> else meta);
          meta = (if labels meta = None then meta\<lparr>labels := Some []\<rparr> else meta)
      in \<lparr>pvs_list = parsed_pvs f, meta_data = meta, modif_time = getmtime f,
          file_selector = None\<rparr>)"

text \<open>
  The loop over the glob, on the pair \<^verbatim>\<open>parsed_save_files\<close>, \<^verbatim>\<open>err_to_report\<close>; it is left
  as soon as \<^verbatim>\<open>parsed_save_files\<close> holds more than ten files.
\<close>

fun get_save_files_loop ::
  "string \<Rightarrow> (string \<times> 'v file_data) list \<Rightarrow> 'v save_file list
   \<Rightarrow> (string \<times> 'v file_data) list \<times> (string \<times> string list) list
   \<Rightarrow> (string \<times> 'v file_data) list \<times> (string \<times> string list) list" where
  "get_save_files_loop req current_files [] acc = acc"
| "get_save_files_loop req current_files (f # fs) (parsed_save_files, err_to_report) =
     (if isfile f \<and> new_or_modified current_files f \<and> belongs_to_req_file req f then
        (let parsed_save_files = AList.update (file_name f) (save_file_entry f) parsed_save_files;
             err_to_report = (if parsed_err f \<noteq> []
                              then err_to_report @ [(file_name f, parsed_err f)]
                              else err_to_report)
         in if length parsed_save_files > 10 then (parsed_save_files, err_to_report)
            else get_save_files_loop req current_files fs (parsed_save_files, err_to_report))
      else get_save_files_loop req current_files fs (parsed_save_files, err_to_report))"

definition get_save_files ::
  "string \<Rightarrow> 'v save_file list \<Rightarrow> (string \<times> 'v file_data) list
   \<Rightarrow> (string \<times> 'v file_data) list \<times> (string \<times> string list) list" where
  "get_save_files req save_dir current_files =
     get_save_files_loop req current_files save_dir ([], [])"

section \<open>update_file_list_selector: entering the parsed files into the table\<close>

text \<open>\<^verbatim>\<open>list(set(a) - set(b))\<close>: the elements of \<open>a\<close> that are not in \<open>b\<close>, each once. Python
  leaves the order of the result open; here it is the order of first occurrence in \<open>a\<close>.\<close>

definition list_set_diff :: "string list \<Rightarrow> string list \<Rightarrow> string list" where
  "list_set_diff a b = remdups (filter (\<lambda>l. l \<notin> set b) a)"

text \<open>Lines 509-517: for a label, whether some file of the table carries it; reading the
  labels of a file whose header has none raises \<^verbatim>\<open>KeyError\<close>.\<close>

definition loaded_labels :: "(string \<times> 'v file_data) list \<Rightarrow> py_error + string list list" where
  "loaded_labels fl =
     (case those (map (\<lambda>e. labels (meta_data (snd e))) fl) of
        None \<Rightarrow> Inl KeyError
      | Some in_files \<Rightarrow> Inr in_files)"

text \<open>
  A function that changes the state of the widget and may raise returns the exception, if
  any, together with the state as it is when the function is left: what was changed before
  the exception stays changed.
\<close>

text \<open>Lines 518-522: \<^verbatim>\<open>existing_labels.remove(label)\<close> for every label not in use; removing
  a label that is not in the list raises \<^verbatim>\<open>ValueError\<close>.\<close>

fun remove_unused ::
  "string list list \<Rightarrow> string list \<Rightarrow> string list \<Rightarrow> py_error option \<times> string list" where
  "remove_unused in_files [] existing = (None, existing)"
| "remove_unused in_files (label # rest) existing =
     (if \<exists>ls \<in> set in_files. label \<in> set ls then remove_unused in_files rest existing
      else if label \<in> set existing then remove_unused in_files rest (remove1 label existing)
      else (Some ValueError, existing))"

text \<open>Lines 525-528: the row of a modified file is rewritten; an entry without the key
  \<^verbatim>\<open>file_selector\<close> raises \<^verbatim>\<open>KeyError\<close>.\<close>

definition rewrite_row ::
  "nat option \<Rightarrow> int \<Rightarrow> string \<Rightarrow> string \<Rightarrow> 'v selector \<Rightarrow> py_error option \<times> 'v selector" where
  "rewrite_row item_to_modify mtime cmt labels_text s =
     (case item_to_modify of
        None \<Rightarrow> (Some KeyError, s)
      | Some row \<Rightarrow>
          (None, s\<lparr>tree := map (\<lambda>it. if item_id it = row
                                     then it\<lparr>time_col := mtime, comment_col := cmt,
                                             labels_col := labels_text\<rparr>
                                     else it) (tree s)\<rparr>))"

text \<open>
  The body of the loop of \<^verbatim>\<open>update_file_list_selector\<close> for one parsed file. A new file gets
  a row (without data) and its entry, and its labels are appended to the shared list. For a
  file already in the table, in this order: the labels it gained are appended to the shared
  list; the header and the items of the entry are replaced (its \<^verbatim>\<open>modif_time\<close> is not); the
  labels it lost are removed from the shared list when no file of the table carries them;
  its row is rewritten.
\<close>

definition update_file ::
  "string \<times> 'v file_data \<Rightarrow> 'v selector \<Rightarrow> py_error option \<times> 'v selector" where
  "update_file e s =
     (case e of (modified_file, modified_data) \<Rightarrow>
       (let meta = meta_data modified_data;
            lbls = get_labels meta;
            cmt = ''X_'' @ get_comment meta;
            mtime = modif_time modified_data
        in case map_of (file_list s) modified_file of
             None \<Rightarrow>
               (None,
                s\<lparr>tree := tree s @
                           [\<lparr>item_id = next_id s, time_col = mtime, file_col = modified_file,
                             comment_col = cmt, labels_col = join_sp lbls,
                             item_data = None, hidden = False\<rparr>],
                  file_list := AList.update modified_file
                                 (modified_data\<lparr>file_selector := Some (next_id s)\<rparr>)
                                 (file_list s),
                  existing_labels := existing_labels s
                                       @ list_set_diff lbls (existing_labels s),
                  next_id := Suc (next_id s)\<rparr>)
           | Some modified_file_ref \<Rightarrow>
               (case labels (meta_data modified_file_ref) of
                  None \<Rightarrow> (Some KeyError, s)
                | Some old_labels \<Rightarrow>
                    (let labels_to_add = list_set_diff lbls old_labels;
                         labels_to_remove = list_set_diff old_labels lbls;
                         s1 = s\<lparr>existing_labels := existing_labels s @ labels_to_add,
                                file_list := AList.update modified_file
                                  (modified_file_ref\<lparr>meta_data := meta,
                                                      pvs_list := pvs_list modified_data\<rparr>)
                                  (file_list s)\<rparr>;
                         item_to_modify = file_selector modified_file_ref
                     in if labels_to_remove \<noteq> [] then
                          (case loaded_labels (file_list s1) of
                             Inl err \<Rightarrow> (Some err, s1)
                           | Inr in_files \<Rightarrow>
                               (case remove_unused in_files labels_to_remove
                                       (existing_labels s1) of
                                  (Some err, existing) \<Rightarrow>
                                    (Some err, s1\<lparr>existing_labels := existing\<rparr>)
                                | (None, existing) \<Rightarrow>
                                    rewrite_row item_to_modify mtime cmt (join_sp lbls)
                                      (s1\<lparr>existing_labels := existing\<rparr>)))
                        else rewrite_row item_to_modify mtime cmt (join_sp lbls) s1))))"

fun update_file_list_selector ::
  "(string \<times> 'v file_data) list \<Rightarrow> 'v selector \<Rightarrow> py_error option \<times> 'v selector" where
  "update_file_list_selector [] s = (None, s)"
| "update_file_list_selector (e # es) s =
     (case update_file e s of
        (Some err, s') \<Rightarrow> (Some err, s')
      | (None, s') \<Rightarrow> update_file_list_selector es s')"

text \<open>
  Lines 340-342 of \<^verbatim>\<open>start_file_list_update\<close>: the scan of the directory against the table
  and the update of the table with what the scan returned. The result is the dictionary of
  updated files (what \<^verbatim>\<open>start_file_list_update\<close> returns) or the exception, and the state.
\<close>

definition reconcile ::
  "string \<Rightarrow> 'v save_file list \<Rightarrow> 'v selector
   \<Rightarrow> (py_error + (string \<times> 'v file_data) list) \<times> 'v selector" where
  "reconcile req save_dir s =
     (case get_save_files req save_dir (file_list s) of
        (save_files, err_to_report) \<Rightarrow>
          (case update_file_list_selector save_files s of
             (Some err, s') \<Rightarrow> (Inl err, s')
           | (None, s') \<Rightarrow> (Inr save_files, s')))"

section \<open>evt_delete_files\<close>

text \<open>
  The body of the loop over the selected files, after the user has confirmed. \<open>removable\<close>
  says for which files \<^verbatim>\<open>os.remove\<close> succeeds; its \<^verbatim>\<open>OSError\<close> is caught and shown. Then the
  entry is popped from the table (\<^verbatim>\<open>KeyError\<close> when there is none) and the first row with
  that file name is taken out of the tree (\<^verbatim>\<open>IndexError\<close> when there is none, the entry
  being popped already).
\<close>

fun take_first_row :: "string \<Rightarrow> selector_item list \<Rightarrow> selector_item list option" where
  "take_first_row name [] = None"
| "take_first_row name (it # its) =
     (if file_col it = name then Some its
      else map_option (\<lambda>r. it # r) (take_first_row name its))"

definition delete_file ::
  "(string \<Rightarrow> bool) \<Rightarrow> string \<Rightarrow> 'v selector \<Rightarrow> py_error option \<times> 'v selector" where
  "delete_file removable selected_file s =
     (if \<not> removable selected_file then (None, s)
      else case map_of (file_list s) selected_file of
             None \<Rightarrow> (Some KeyError, s)
           | Some d \<Rightarrow>
               (let s1 = s\<lparr>file_list := AList.delete selected_file (file_list s)\<rparr>
                in case take_first_row selected_file (tree s1) of
                     None \<Rightarrow> (Some IndexError, s1)
                   | Some rows \<Rightarrow> (None, s1\<lparr>tree := rows\<rparr>)))"

fun delete_files ::
  "(string \<Rightarrow> bool) \<Rightarrow> string list \<Rightarrow> 'v selector \<Rightarrow> py_error option \<times> 'v selector" where
  "delete_files removable [] s = (None, s)"
| "delete_files removable (f # fs) s =
     (case delete_file removable f s of
        (Some err, s') \<Rightarrow> (Some err, s')
      | (None, s') \<Rightarrow> delete_files removable fs s')"

text \<open>\<open>reply_yes\<close>: the user's answer to the question box.\<close>

definition evt_delete_files ::
  "(string \<Rightarrow> bool) \<Rightarrow> bool \<Rightarrow> 'v selector \<Rightarrow> py_error option \<times> 'v selector" where
  "evt_delete_files removable reply_yes s =
     (if selected_files s \<noteq> [] \<and> reply_yes
      then delete_files removable (selected_files s) s
      else (None, s))"

section \<open>start_file_list_update_new: listing the files of the index\<close>

text \<open>
  What the function reads from outside: the files the glob of \<^verbatim>\<open>gen_index_file\<close> yields
  (base name and first line), \<^verbatim>\<open>json.load\<close> on the text of the index (the list of pairs of
  file name and header, or the exception), and the modification time of a file of the
  directory.
\<close>

record index_env =
  index_glob :: "(string \<times> string) list"
  json_load :: "string \<Rightarrow> py_error + (string \<times> meta_data) list"
  index_getmtime :: "string \<Rightarrow> int"

text \<open>
  The loop over \<^verbatim>\<open>idx_data\<close>, on the rows of the tree, the next row identity, the local
  variable \<^verbatim>\<open>existing_labels\<close> (the set made by \<^verbatim>\<open>set(existing_labels)\<close>) and the counter
  \<open>n\<close>. \<open>fnSet\<close> holds the file names of the rows that were there before the loop.
\<close>

definition new_row :: "(string \<Rightarrow> int) \<Rightarrow> nat \<Rightarrow> string \<Rightarrow> meta_data \<Rightarrow> selector_item" where
  "new_row mtime nid fn meta =
     \<lparr>item_id = nid, time_col = mtime fn, file_col = fn, comment_col = get_comment meta,
      labels_col = join_sp (get_labels meta), item_data = Some meta, hidden = False\<rparr>"

fun add_new_rows ::
  "(string \<Rightarrow> int) \<Rightarrow> string set \<Rightarrow> (string \<times> meta_data) list
   \<Rightarrow> selector_item list \<times> nat \<times> string set \<times> nat
   \<Rightarrow> selector_item list \<times> nat \<times> string set \<times> nat" where
  "add_new_rows mtime fnSet [] st = st"
| "add_new_rows mtime fnSet ((fn, meta) # rest) (rows, nid, existing_labels_set, n) =
     (if fn \<in> fnSet then add_new_rows mtime fnSet rest (rows, nid, existing_labels_set, n)
      else
        (let st = (rows @ [new_row mtime nid fn meta], Suc nid,
                   existing_labels_set \<union> set (get_labels meta), n + 1)
         in if n + 1 > 10 then st else add_new_rows mtime fnSet rest st))"

text \<open>
  The function returns the exception raised, if any, and the state. The set of labels is a
  value of its own, made from the shared list; the loop adds to this set, and the state
  that comes back takes the rows and the next row identity from the loop and nothing else.
\<close>

definition start_file_list_update_new ::
  "index_env \<Rightarrow> 'v selector \<Rightarrow> py_error option \<times> 'v selector" where
  "start_file_list_update_new env s =
     (let existing_labels_set = set (existing_labels s)
      in case gen_index_file (index_glob env) of
           Inl err \<Rightarrow> (Some err, s)
         | Inr txt \<Rightarrow>
             (case json_load env txt of
                Inl err \<Rightarrow> (Some err, s)
              | Inr idx_data \<Rightarrow>
                  (let fnSet = set (map file_col (tree s))
                   in case add_new_rows (index_getmtime env) fnSet idx_data
                             (tree s, next_id s, existing_labels_set, 0) of
                        (rows, nid, existing_labels_set, n) \<Rightarrow>
                          (None, s\<lparr>tree := rows, next_id := nid\<rparr>))))"

section \<open>Theorems\<close>

lemma py_in_sublist: "py_in a b = sublist a b"
  by (induction b) (auto simp: sublist_Cons_right)

lemma pos_fold_index_line:
  "pos (fold (\<lambda>e f. stream_write (index_line e) f) files f0) \<ge> pos f0 + 7 * length files"
proof (induction files arbitrary: f0)
  case Nil
  show ?case by simp
next
  case (Cons e es)
  have "pos (stream_write (index_line e) f0) \<ge> pos f0 + 7"
    by (cases e) (simp add: stream_write_def index_line_def)
  with Cons [of "stream_write (index_line e) f0"] show ?case by simp
qed

text \<open>
  C4 (restore_done, error state). The claim: the aggregated result is an error state exactly
  when some item is \<open>type_err\<close>, or some item is \<open>access_err\<close> and force is off, whatever
  the order of the items. The code assigns \<open>error = not forced\<close> at every \<open>access_err\<close>
  item, so with force on an \<open>access_err\<close> that follows a \<open>type_err\<close> clears the flag: the
  same two statuses end as "Restore done" in one order and as an error in the other.
\<close>

theorem restore_done_order_dependent:
  "\<not> error (restore_done [(''A'', type_err), (''B'', access_err)] True)
   \<and> sts_info (restore_done [(''A'', type_err), (''B'', access_err)] True)
       = Some (''Restore done'', ''#64C864'')
   \<and> error (restore_done [(''B'', access_err), (''A'', type_err)] True)"
  by (simp add: restore_done_def restore_done_item_def Let_def)

text \<open>
  C9 (gen_index_file on a directory without candidates). With no file matched, only the
  two characters of the prefix have been written, the seek target is \<open>2 - 3 = -1\<close> and the
  call raises; an index text is produced exactly when at least one file was matched.
\<close>

theorem gen_index_file_raises_iff_no_candidate:
  "gen_index_file [] = Inl ValueError
   \<and> (gen_index_file files = Inl ValueError) = (files = [])
   \<and> (\<exists>txt. gen_index_file files = Inr txt) = (files \<noteq> [])"
proof -
  have e: "gen_index_file [] = Inl ValueError"
    by (simp add: gen_index_file_def stream_write_def stream_seek_def stream_tell_def)
  have ne: "\<exists>txt. gen_index_file files = Inr txt" if "files \<noteq> []"
  proof -
    let ?f = "fold (\<lambda>e f. stream_write (index_line e) f) files
                (stream_write [CHR ''['', CHR 0x0A] \<lparr>buf = [], pos = 0\<rparr>)"
    from that have "length files \<ge> 1" by (cases files) simp_all
    with pos_fold_index_line [of "stream_write [CHR ''['', CHR 0x0A] \<lparr>buf = [], pos = 0\<rparr>" files]
    have "pos ?f \<ge> 3" by simp
    then show ?thesis
      by (simp add: gen_index_file_def stream_seek_def stream_tell_def Let_def)
  qed
  show ?thesis
  proof (cases "files = []")
    case True
    with e show ?thesis by simp
  next
    case False
    with ne [OF False] e show ?thesis by auto
  qed
qed

subsection \<open>The filter over the rows\<close>

lemma item_hidden_visible_labels:
  "item_hidden ff it = Inr False \<Longrightarrow> keys_filter ff \<noteq> [] \<Longrightarrow>
    \<exists>m ls. item_data it = Some m \<and> labels m = Some ls \<and> set (keys_filter ff) \<subseteq> set ls"
  by (auto simp: item_hidden_def Let_def split: if_splits option.splits)

lemma item_hidden_no_keys:
  "keys_filter ff = [] \<Longrightarrow> comment_filter ff = [] \<Longrightarrow>
    name_filter ff = [] \<or> py_in (name_filter ff) (file_col it) \<Longrightarrow>
    item_hidden ff it = Inr False"
  by (auto simp: item_hidden_def Let_def)

text \<open>
  C1 (the comment criterion). The claim: a row passes the comment test exactly when the
  comment filter is empty or occurs in the row's comment, whatever the other filter fields
  are. The code tests \<open>name_filter\<close> against the comment instead. First row below: the comment
  filter \<open>xyz\<close> does not occur in the comment \<open>baseline\<close>, the name filter is empty, and the
  row stays visible. Second row: the comment filter \<open>base\<close> occurs in the comment, the name
  filter \<open>snap\<close> occurs in the file name, and the row is hidden, because \<open>snap\<close> is not part
  of the comment.
\<close>

theorem comment_test_uses_name_filter:
  "item_hidden \<lparr>keys_filter = [], comment_filter = ''xyz'', name_filter = []\<rparr>
     \<lparr>item_id = 0, time_col = 0, file_col = ''a.snap'', comment_col = ''baseline'',
      labels_col = [],
      item_data = Some \<lparr>req_file_name = None, comment = Some ''baseline'', labels = Some []\<rparr>,
      hidden = False\<rparr> = Inr False
   \<and> \<not> py_in ''xyz'' ''baseline''
   \<and> item_hidden \<lparr>keys_filter = [], comment_filter = ''base'', name_filter = ''snap''\<rparr>
     \<lparr>item_id = 0, time_col = 0, file_col = ''a.snap'', comment_col = ''baseline'',
      labels_col = [],
      item_data = Some \<lparr>req_file_name = None, comment = Some ''baseline'', labels = Some []\<rparr>,
      hidden = False\<rparr> = Inr True
   \<and> py_in ''base'' ''baseline'' \<and> py_in ''snap'' ''a.snap''"
  by (simp add: item_hidden_def)

text \<open>
  C6 (the label criterion). The claim: with requested labels, a row is visible only if its
  label list contains every requested label. For a row that the loop reaches and whose data
  has labels this is what the code does (\<open>item_hidden_visible_labels\<close>, and
  \<open>item_hidden_no_keys\<close> for the empty request). A row made by
  \<^verbatim>\<open>update_file_list_selector\<close> has no data: the code replaces the missing data by an empty
  dictionary, \<^verbatim>\<open>issubset(None)\<close> raises \<^verbatim>\<open>TypeError\<close>, the loop is left, and the rows after it
  keep their flag. Below, the second row carries only \<open>shift1\<close>, the filter asks for
  \<open>shift2\<close>, and the row is still visible after the run.
\<close>

theorem label_filter_raises_on_row_without_data:
  "filter_file_list_selector \<lparr>keys_filter = [''shift2''], comment_filter = [], name_filter = []\<rparr>
     [\<lparr>item_id = 0, time_col = 0, file_col = ''a.snap'', comment_col = ''X_baseline'',
       labels_col = ''shift1'', item_data = None, hidden = False\<rparr>,
      \<lparr>item_id = 1, time_col = 0, file_col = ''b.snap'', comment_col = [],
       labels_col = ''shift1'',
       item_data = Some \<lparr>req_file_name = None, comment = Some [],
                          labels = Some [''shift1'']\<rparr>,
       hidden = False\<rparr>]
   = (Some TypeError,
      [\<lparr>item_id = 0, time_col = 0, file_col = ''a.snap'', comment_col = ''X_baseline'',
        labels_col = ''shift1'', item_data = None, hidden = False\<rparr>,
       \<lparr>item_id = 1, time_col = 0, file_col = ''b.snap'', comment_col = [],
        labels_col = ''shift1'',
        item_data = Some \<lparr>req_file_name = None, comment = Some [],
                           labels = Some [''shift1'']\<rparr>,
        hidden = False\<rparr>])"
  by (simp add: item_hidden_def)

subsection \<open>The items handed to the restore call\<close>

lemma fold_delete_filter:
  "fold (\<lambda>k r. if P k then AList.delete k r else r) ks r
     = filter (\<lambda>(k, v). \<not> (k \<in> set ks \<and> P k)) r"
proof (induction ks arbitrary: r)
  case Nil
  show ?case by simp
next
  case (Cons k ks)
  show ?case
    by (auto simp: Cons.IH AList.delete_eq intro!: filter_cong)
qed

text \<open>
  C7 (the restore subset). With exactly one file selected, present in the table, and a subset
  list given, \<^verbatim>\<open>restore_pvs\<close> is called with exactly the stored items of the file whose
  substituted names are in the subset, each with its stored value and in the stored order.
\<close>

theorem do_restore_subset_after_substitution:
  assumes "selected_files s = [f]" and "map_of (file_list s) f = Some d"
  shows "do_restore macros_substitution macros s (Some pl)
           = Restore_pvs (filter (\<lambda>(pvname, v). macros_substitution pvname macros \<in> set pl)
                            (pvs_list d))"
proof -
  have "filter (\<lambda>(k, v). \<not> (k \<in> set (map fst (pvs_list d))
                            \<and> macros_substitution k macros \<notin> set pl)) (pvs_list d)
          = filter (\<lambda>(k, v). macros_substitution k macros \<in> set pl) (pvs_list d)"
    by (rule filter_cong) force+
  with assms show ?thesis
    by (simp add: do_restore_def fold_delete_filter Let_def)
qed

theorem do_restore_subset_after_substitution_witness:
  "do_restore (\<lambda>pvname m. m @ pvname) ''X:''
     \<lparr>file_list = [(''f.snap'',
                    \<lparr>pvs_list = [(''A'', 1::int), (''B'', 2)],
                     meta_data = \<lparr>req_file_name = None, comment = Some [], labels = Some []\<rparr>,
                     modif_time = 0, file_selector = Some 0\<rparr>)],
      tree = [], existing_labels = [], selected_files = [''f.snap''], next_id = 1\<rparr>
     (Some [''X:A'', ''B''])
   = Restore_pvs [(''A'', 1)]"
proof -
  let ?d = "\<lparr>pvs_list = [(''A'', 1::int), (''B'', 2)],
             meta_data = \<lparr>req_file_name = None, comment = Some [], labels = Some []\<rparr>,
             modif_time = 0, file_selector = Some (0::nat)\<rparr>"
  let ?s = "\<lparr>file_list = [(''f.snap'', ?d)], tree = [], existing_labels = [],
             selected_files = [''f.snap''], next_id = 1\<rparr>"
  have sel: "selected_files ?s = [''f.snap'']" by simp
  have tab: "map_of (file_list ?s) ''f.snap'' = Some ?d" by simp
  from do_restore_subset_after_substitution [OF sel tab, of "\<lambda>pvname m. m @ pvname" "''X:''" "[''X:A'', ''B'']"]
  show ?thesis by simp
qed

subsection \<open>The scan of the save directory\<close>









text \<open>
  C5 (which request file a save file belongs to). The claim: a file whose header names a
  request file is accepted exactly when that name is the current request file's, and the
  prefix of the file name decides only when the header names none. The code accepts a file
  when the header names the current request file or the file name has the prefix: below, the
  header names \<open>b.req\<close>, the current request file is \<open>a.req\<close>, and the file is accepted
  because its name starts with \<open>a_\<close>.
\<close>

theorem prefix_admits_file_of_other_request:
  "get_save_files ''a.req''
     [\<lparr>file_name = ''a_1.snap'', isfile = True, getmtime = 5,
       parsed_pvs = [(''PV:A'', 1::int)],
       parsed_meta = \<lparr>req_file_name = Some ''b.req'', comment = Some ''c'', labels = Some []\<rparr>,
       parsed_err = []\<rparr>] []
   = ([(''a_1.snap'',
        \<lparr>pvs_list = [(''PV:A'', 1)],
         meta_data = \<lparr>req_file_name = Some ''b.req'', comment = Some ''c'', labels = Some []\<rparr>,
         modif_time = 5, file_selector = None\<rparr>)], [])"
  by (simp add: get_save_files_def new_or_modified_def belongs_to_req_file_def split_dot_0_def
        save_file_entry_def)

text \<open>
  C3 (the labels in use). The claim: the shared list of existing labels holds exactly the
  labels carried by the files of the table, also after a file was removed. Below, two files
  enter the empty table, the first with label \<open>shift1\<close>, the second with \<open>shift1\<close> and
  \<open>shift2\<close>; then the second is deleted with \<^verbatim>\<open>evt_delete_files\<close>. It leaves the table and the
  tree, and the shared list still holds \<open>shift2\<close>, which no file of the table carries.
\<close>

theorem delete_keeps_unused_label:
  "reconcile ''run.req''
     [\<lparr>file_name = ''run_a.snap'', isfile = True, getmtime = 5, parsed_pvs = [(''PV:A'', 1::int)],
       parsed_meta = \<lparr>req_file_name = Some ''run.req'', comment = Some ''baseline'',
                       labels = Some [''shift1'']\<rparr>,
       parsed_err = []\<rparr>,
      \<lparr>file_name = ''run_b.snap'', isfile = True, getmtime = 6, parsed_pvs = [(''PV:A'', 2)],
       parsed_meta = \<lparr>req_file_name = Some ''run.req'', comment = Some [],
                       labels = Some [''shift1'', ''shift2'']\<rparr>,
       parsed_err = []\<rparr>]
     \<lparr>file_list = [], tree = [], existing_labels = [], selected_files = [], next_id = 0\<rparr>
   = (Inr [(''run_a.snap'',
            \<lparr>pvs_list = [(''PV:A'', 1)],
             meta_data = \<lparr>req_file_name = Some ''run.req'', comment = Some ''baseline'',
                           labels = Some [''shift1'']\<rparr>,
             modif_time = 5, file_selector = None\<rparr>),
           (''run_b.snap'',
            \<lparr>pvs_list = [(''PV:A'', 2)],
             meta_data = \<lparr>req_file_name = Some ''run.req'', comment = Some [],
                           labels = Some [''shift1'', ''shift2'']\<rparr>,
             modif_time = 6, file_selector = None\<rparr>)],
          \<lparr>file_list =
             [(''run_a.snap'',
               \<lparr>pvs_list = [(''PV:A'', 1)],
                meta_data = \<lparr>req_file_name = Some ''run.req'', comment = Some ''baseline'',
                              labels = Some [''shift1'']\<rparr>,
                modif_time = 5, file_selector = Some 0\<rparr>),
              (''run_b.snap'',
               \<lparr>pvs_list = [(''PV:A'', 2)],
                meta_data = \<lparr>req_file_name = Some ''run.req'', comment = Some [],
                              labels = Some [''shift1'', ''shift2'']\<rparr>,
                modif_time = 6, file_selector = Some 1\<rparr>)],
           tree =
             [\<lparr>item_id = 0, time_col = 5, file_col = ''run_a.snap'', comment_col = ''X_baseline'',
               labels_col = ''shift1'', item_data = None, hidden = False\<rparr>,
              \<lparr>item_id = 1, time_col = 6, file_col = ''run_b.snap'', comment_col = ''X_'',
               labels_col = ''shift1 shift2'', item_data = None, hidden = False\<rparr>],
           existing_labels = [''shift1'', ''shift2''], selected_files = [], next_id = 2\<rparr>)
   \<and> evt_delete_files (\<lambda>f. True) True
        \<lparr>file_list =
             [(''run_a.snap'',
               \<lparr>pvs_list = [(''PV:A'', 1::int)],
                meta_data = \<lparr>req_file_name = Some ''run.req'', comment = Some ''baseline'',
                              labels = Some [''shift1'']\<rparr>,
                modif_time = 5, file_selector = Some 0\<rparr>),
              (''run_b.snap'',
               \<lparr>pvs_list = [(''PV:A'', 2)],
                meta_data = \<lparr>req_file_name = Some ''run.req'', comment = Some [],
                              labels = Some [''shift1'', ''shift2'']\<rparr>,
                modif_time = 6, file_selector = Some 1\<rparr>)],
           tree =
             [\<lparr>item_id = 0, time_col = 5, file_col = ''run_a.snap'', comment_col = ''X_baseline'',
               labels_col = ''shift1'', item_data = None, hidden = False\<rparr>,
              \<lparr>item_id = 1, time_col = 6, file_col = ''run_b.snap'', comment_col = ''X_'',
               labels_col = ''shift1 shift2'', item_data = None, hidden = False\<rparr>],
           existing_labels = [''shift1'', ''shift2''], selected_files = [''run_b.snap''],
           next_id = 2\<rparr>
     = (None,
        \<lparr>file_list =
             [(''run_a.snap'',
               \<lparr>pvs_list = [(''PV:A'', 1)],
                meta_data = \<lparr>req_file_name = Some ''run.req'', comment = Some ''baseline'',
                              labels = Some [''shift1'']\<rparr>,
                modif_time = 5, file_selector = Some 0\<rparr>)],
           tree =
             [\<lparr>item_id = 0, time_col = 5, file_col = ''run_a.snap'', comment_col = ''X_baseline'',
               labels_col = ''shift1'', item_data = None, hidden = False\<rparr>],
           existing_labels = [''shift1'', ''shift2''], selected_files = [''run_b.snap''],
           next_id = 2\<rparr>)"
  by (simp add: reconcile_def get_save_files_def new_or_modified_def belongs_to_req_file_def
        split_dot_0_def save_file_entry_def update_file_def get_labels_def get_comment_def
        list_set_diff_def evt_delete_files_def delete_file_def AList.delete_eq Let_def)

subsection \<open>The rows added from the index\<close>

lemma add_new_rows_skip:
  "fn \<in> fnSet \<Longrightarrow> add_new_rows mt fnSet ((fn, meta) # rest) (rows, nid, L, n)
      = add_new_rows mt fnSet rest (rows, nid, L, n)"
  by simp

lemma add_new_rows_add:
  "fn \<notin> fnSet \<Longrightarrow> add_new_rows mt fnSet ((fn, meta) # rest) (rows, nid, L, n)
      = (if n \<ge> 10 then (rows @ [new_row mt nid fn meta], Suc nid, L \<union> set (get_labels meta), Suc n)
         else add_new_rows mt fnSet rest
                (rows @ [new_row mt nid fn meta], Suc nid, L \<union> set (get_labels meta), Suc n))"
  by (auto simp: Let_def)

lemma add_new_rows_eq:
  assumes "n \<le> 10"
  shows "add_new_rows mt fnSet idx (rows, nid, L, n) =
     (rows @ map (\<lambda>(i, e). new_row mt i (fst e) (snd e))
               (enumerate nid (take (11 - n) (filter (\<lambda>e. fst e \<notin> fnSet) idx))),
      nid + length (take (11 - n) (filter (\<lambda>e. fst e \<notin> fnSet) idx)),
      L \<union> \<Union> (set ` get_labels ` snd ` set (take (11 - n) (filter (\<lambda>e. fst e \<notin> fnSet) idx))),
      n + length (take (11 - n) (filter (\<lambda>e. fst e \<notin> fnSet) idx)))"
  using assms
proof (induction idx arbitrary: rows nid L n)
  case Nil
  show ?case by simp
next
  case (Cons e idx)
  obtain fn meta where e: "e = (fn, meta)" by (cases e)
  show ?case
  proof (cases "fn \<in> fnSet")
    case True
    with Cons.IH [OF Cons.prems] show ?thesis
      unfolding e by (simp only: add_new_rows_skip [OF True] filter.simps fst_conv simp_thms if_False)
  next
    case False
    from Cons.prems have eleven: "11 - n = Suc (10 - n)" by simp
    have tk: "take (11 - n) (filter (\<lambda>e. fst e \<notin> fnSet) (e # idx))
                = e # take (10 - n) (filter (\<lambda>e. fst e \<notin> fnSet) idx)"
      unfolding eleven using False e by simp
    show ?thesis
    proof (cases "n = 10")
      case True
      then show ?thesis
        unfolding tk unfolding e add_new_rows_add [OF False] by simp
    next
      case n: False
      with Cons.prems have le: "Suc n \<le> 10" by simp
      have m: "11 - Suc n = 10 - n" by simp
      have "add_new_rows mt fnSet (e # idx) (rows, nid, L, n)
              = add_new_rows mt fnSet idx
                  (rows @ [new_row mt nid fn meta], Suc nid, L \<union> set (get_labels meta), Suc n)"
        unfolding e add_new_rows_add [OF False] using n Cons.prems by simp
      also note Cons.IH [OF le]
      finally show ?thesis
        unfolding tk m by (simp add: e Un_assoc)
    qed
  qed
qed


lemma start_file_list_update_new_eq:
  assumes "gen_index_file (index_glob env) = Inr txt" and "json_load env txt = Inr idx_data"
  shows "start_file_list_update_new env s =
     (None, s\<lparr>tree := tree s @ map (\<lambda>(i, e). new_row (index_getmtime env) i (fst e) (snd e))
                               (enumerate (next_id s)
                                  (take 11 (filter (\<lambda>e. fst e \<notin> set (map file_col (tree s))) idx_data))),
              next_id := next_id s
                 + length (take 11 (filter (\<lambda>e. fst e \<notin> set (map file_col (tree s))) idx_data))\<rparr>)"
  using assms add_new_rows_eq [of 0 "index_getmtime env" "set (map file_col (tree s))" idx_data
      "tree s" "next_id s" "set (existing_labels s)"]
  by (simp add: start_file_list_update_new_def Let_def)

lemma start_file_list_update_new_raises:
  "gen_index_file (index_glob env) = Inl err \<Longrightarrow> start_file_list_update_new env s = (Some err, s)"
  "gen_index_file (index_glob env) = Inr txt \<Longrightarrow> json_load env txt = Inl err \<Longrightarrow>
     start_file_list_update_new env s = (Some err, s)"
  by (simp_all add: start_file_list_update_new_def)




text \<open>
  C10 (the shared list of existing labels is left alone). Whatever the index holds and
  whether or not the function raises, the list in \<^verbatim>\<open>common_settings["existing_labels"]\<close> is
  after the call what it was before. When the index was written and read, the function
  returns normally and has appended a row for each of the first eleven files of the index
  that had no row, and nothing else of the state has changed; the labels of these files are
  in the local set at the end of the loop, together with the labels the shared list held.
\<close>

theorem start_file_list_update_new_keeps_shared_labels:
  "existing_labels (snd (start_file_list_update_new env s)) = existing_labels s
   \<and> (\<forall>txt idx_data.
         gen_index_file (index_glob env) = Inr txt \<and> json_load env txt = Inr idx_data \<longrightarrow>
           start_file_list_update_new env s =
             (None, s\<lparr>tree := tree s @ map (\<lambda>(i, e). new_row (index_getmtime env) i (fst e) (snd e))
                               (enumerate (next_id s)
                                  (take 11 (filter (\<lambda>e. fst e \<notin> set (map file_col (tree s))) idx_data))),
                      next_id := next_id s
                         + length (take 11 (filter (\<lambda>e. fst e \<notin> set (map file_col (tree s))) idx_data))\<rparr>)
           \<and> fst (snd (snd (add_new_rows (index_getmtime env) (set (map file_col (tree s))) idx_data
                               (tree s, next_id s, set (existing_labels s), 0))))
               = set (existing_labels s)
                 \<union> \<Union> (set ` get_labels ` snd `
                       set (take 11 (filter (\<lambda>e. fst e \<notin> set (map file_col (tree s))) idx_data))))"
proof (intro conjI allI impI)
  show "existing_labels (snd (start_file_list_update_new env s)) = existing_labels s"
  proof (cases "gen_index_file (index_glob env)")
    case (Inl err)
    then show ?thesis by (simp add: start_file_list_update_new_raises)
  next
    case (Inr tx)
    show ?thesis
    proof (cases "json_load env tx")
      case (Inl err)
      with Inr show ?thesis by (simp add: start_file_list_update_new_raises)
    next
      case idx: (Inr idx_data)
      show ?thesis by (simp add: start_file_list_update_new_eq [OF Inr idx])
    qed
  qed
next
  fix tx idx_data
  assume a: "gen_index_file (index_glob env) = Inr tx \<and> json_load env tx = Inr idx_data"
  then show "start_file_list_update_new env s =
             (None, s\<lparr>tree := tree s @ map (\<lambda>(i, e). new_row (index_getmtime env) i (fst e) (snd e))
                               (enumerate (next_id s)
                                  (take 11 (filter (\<lambda>e. fst e \<notin> set (map file_col (tree s))) idx_data))),
                      next_id := next_id s
                         + length (take 11 (filter (\<lambda>e. fst e \<notin> set (map file_col (tree s))) idx_data))\<rparr>)"
    by (simp add: start_file_list_update_new_eq)
  show "fst (snd (snd (add_new_rows (index_getmtime env) (set (map file_col (tree s))) idx_data
                               (tree s, next_id s, set (existing_labels s), 0))))
               = set (existing_labels s)
                 \<union> \<Union> (set ` get_labels ` snd `
                       set (take 11 (filter (\<lambda>e. fst e \<notin> set (map file_col (tree s))) idx_data)))"
    using add_new_rows_eq [of 0 "index_getmtime env" "set (map file_col (tree s))" idx_data
      "tree s" "next_id s" "set (existing_labels s)"]
    by simp
qed


theorem start_file_list_update_new_keeps_shared_labels_witness:
  "start_file_list_update_new
     \<lparr>index_glob = [(''run_a.snap'', [])],
      json_load = (\<lambda>t. Inr [(''run_a.snap'',
                               \<lparr>req_file_name = None, comment = Some ''baseline'',
                                 labels = Some [''shift1'']\<rparr>),
                              (''run_b.snap'',
                               \<lparr>req_file_name = None, comment = None,
                                 labels = Some [''shift1'', ''shift2'']\<rparr>)]),
      index_getmtime = (\<lambda>f. 5)\<rparr>
     \<lparr>file_list = ([] :: (string \<times> int file_data) list), tree = [], existing_labels = [''old''],
      selected_files = [], next_id = 0\<rparr>
   = (None,
      \<lparr>file_list = [],
       tree = [\<lparr>item_id = 0, time_col = 5, file_col = ''run_a.snap'', comment_col = ''baseline'',
                labels_col = ''shift1'',
                item_data = Some \<lparr>req_file_name = None, comment = Some ''baseline'',
                                   labels = Some [''shift1'']\<rparr>,
                hidden = False\<rparr>,
               \<lparr>item_id = 1, time_col = 5, file_col = ''run_b.snap'', comment_col = [],
                labels_col = ''shift1 shift2'',
                item_data = Some \<lparr>req_file_name = None, comment = None,
                                   labels = Some [''shift1'', ''shift2'']\<rparr>,
                hidden = False\<rparr>],
       existing_labels = [''old''], selected_files = [], next_id = 2\<rparr>)
   \<and> fst (snd (snd (add_new_rows (\<lambda>f. 5) {}
                       [(''run_a.snap'',
                         \<lparr>req_file_name = None, comment = Some ''baseline'',
                           labels = Some [''shift1'']\<rparr>),
                        (''run_b.snap'',
                         \<lparr>req_file_name = None, comment = None,
                           labels = Some [''shift1'', ''shift2'']\<rparr>)]
                       ([], 0, {''old''}, 0))))
       = {''old'', ''shift1'', ''shift2''}"
proof -
  let ?idx = "[(''run_a.snap'',
                               \<lparr>req_file_name = None, comment = Some ''baseline'',
                                 labels = Some [''shift1'']\<rparr>),
                              (''run_b.snap'',
                               \<lparr>req_file_name = None, comment = None,
                                 labels = Some [''shift1'', ''shift2'']\<rparr>)]"
  let ?env = "\<lparr>index_glob = [(''run_a.snap'', [])], json_load = (\<lambda>t. Inr ?idx),
               index_getmtime = (\<lambda>f. 5)\<rparr>"
  let ?s = "\<lparr>file_list = ([] :: (string \<times> int file_data) list), tree = [],
             existing_labels = [''old''], selected_files = [], next_id = 0\<rparr>"
  obtain tx where g: "gen_index_file (index_glob ?env) = Inr tx"
    by (simp add: gen_index_file_def stream_write_def stream_seek_def stream_tell_def
          index_line_def Let_def)
  have j: "json_load ?env tx = Inr ?idx" by simp
  from start_file_list_update_new_keeps_shared_labels [of ?env ?s] g j
  have "start_file_list_update_new ?env ?s =
             (None, ?s\<lparr>tree := tree ?s @ map (\<lambda>(i, e). new_row (index_getmtime ?env) i (fst e) (snd e))
                               (enumerate (next_id ?s)
                                  (take 11 (filter (\<lambda>e. fst e \<notin> set (map file_col (tree ?s))) ?idx))),
                      next_id := next_id ?s
                         + length (take 11 (filter (\<lambda>e. fst e \<notin> set (map file_col (tree ?s))) ?idx))\<rparr>)
           \<and> fst (snd (snd (add_new_rows (index_getmtime ?env) (set (map file_col (tree ?s))) ?idx
                               (tree ?s, next_id ?s, set (existing_labels ?s), 0))))
               = set (existing_labels ?s)
                 \<union> \<Union> (set ` get_labels ` snd `
                       set (take 11 (filter (\<lambda>e. fst e \<notin> set (map file_col (tree ?s))) ?idx)))"
    by blast
  then show ?thesis
    by (simp add: new_row_def get_labels_def get_comment_def insert_commute)
qed

subsection \<open>Running the scan twice\<close>












end
